theory Spec2Isabelle
  imports Complex_Main
begin

section \<open>Values, series and frames\<close>

text \<open>
  The visualisation module works on pandas dataframes. A dataframe is modelled
  column-wise, as pandas stores it: an association list from column names to
  series, a series being a list of cells. Floating-point values are carried as
  rationals; they are only copied around and compared with integers, never computed
  with, except for the bar length of \<open>print_feature_importance\<close>.
\<close>

datatype error = KeyError string | IndexError | ValueError | TypeError | OSError

datatype timestamp = Timestamp int nat nat

datatype cell = IntV int | NumV rat | StrV string | TsV timestamp | NA

type_synonym series = "cell list"

type_synonym frame = "(string \<times> series) list"

text \<open>\<open>df[name]\<close>: the column, or KeyError.\<close>

definition getitem :: "frame \<Rightarrow> string \<Rightarrow> error + series" where
  "getitem df name = (case map_of df name of None \<Rightarrow> Inl (KeyError name) | Some c \<Rightarrow> Inr c)"

text \<open>\<open>df[name] = values\<close>: replaces the column, or appends a new one.\<close>

fun setitem :: "frame \<Rightarrow> string \<Rightarrow> series \<Rightarrow> frame" where
  "setitem [] name vals = [(name, vals)]"
| "setitem ((k, c) # df) name vals =
     (if k = name then (name, vals) # df else (k, c) # setitem df name vals)"

definition nrows :: "frame \<Rightarrow> nat" where
  "nrows df = (case df of [] \<Rightarrow> 0 | (_, c) # _ \<Rightarrow> length c)"

text \<open>Boolean indexing \<open>s[mask]\<close> and \<open>df[mask]\<close>: the positions where the mask is true.\<close>

definition mask_series :: "'a list \<Rightarrow> bool list \<Rightarrow> 'a list" where
  "mask_series s m = map fst (filter snd (zip s m))"

definition mask_frame :: "frame \<Rightarrow> bool list \<Rightarrow> frame" where
  "mask_frame df m = map (\<lambda>(k, c). (k, mask_series c m)) df"

text \<open>A fallible function applied to every element, stopping at the first error.\<close>

fun map_err :: "('a \<Rightarrow> error + 'b) \<Rightarrow> 'a list \<Rightarrow> error + 'b list" where
  "map_err f [] = Inr []"
| "map_err f (x # xs) =
     (case f x of Inl e \<Rightarrow> Inl e
      | Inr y \<Rightarrow> (case map_err f xs of Inl e \<Rightarrow> Inl e | Inr ys \<Rightarrow> Inr (y # ys)))"

text \<open>
  Elementwise comparison of a column with an integer, as in \<open>df['year'] >= k\<close>:
  a missing value compares false, a string or a timestamp raises TypeError.
\<close>

fun cell_ge :: "int \<Rightarrow> cell \<Rightarrow> error + bool" where
  "cell_ge k (IntV i) = Inr (k \<le> i)"
| "cell_ge k (NumV r) = Inr (of_int k \<le> r)"
| "cell_ge k NA = Inr False"
| "cell_ge k (StrV s) = Inl TypeError"
| "cell_ge k (TsV t) = Inl TypeError"

fun cell_le :: "int \<Rightarrow> cell \<Rightarrow> error + bool" where
  "cell_le k (IntV i) = Inr (i \<le> k)"
| "cell_le k (NumV r) = Inr (r \<le> of_int k)"
| "cell_le k NA = Inr False"
| "cell_le k (StrV s) = Inl TypeError"
| "cell_le k (TsV t) = Inl TypeError"

definition series_ge :: "series \<Rightarrow> int \<Rightarrow> error + bool list" where
  "series_ge s k = map_err (cell_ge k) s"

definition series_le :: "series \<Rightarrow> int \<Rightarrow> error + bool list" where
  "series_le s k = map_err (cell_le k) s"

text \<open>\<open>m1 & m2\<close> on two masks over the same index.\<close>

definition mask_and :: "bool list \<Rightarrow> bool list \<Rightarrow> bool list" where
  "mask_and m1 m2 = map (\<lambda>(a, b). a \<and> b) (zip m1 m2)"

text \<open>\<open>s.iloc[-1]\<close>: the last element, IndexError on an empty series.\<close>

definition iloc_last :: "series \<Rightarrow> error + cell" where
  "iloc_last s = (if s = [] then Inl IndexError else Inr (last s))"

section \<open>Quarter periods and timestamps\<close>

text \<open>
  \<open>pd.PeriodIndex(col, freq='Q').to_timestamp()\<close>. The model reads the format the
  pipeline writes, four digits, \<open>Q\<close> and a quarter digit, as in \<open>2025Q1\<close>; a missing
  value gives a missing period; every other cell is reported as ValueError. The
  timestamp of a period is the first day of the quarter.
\<close>

datatype period = Quarter int nat | NaT

definition is_digit :: "char \<Rightarrow> bool" where
  "is_digit c = (48 \<le> (of_char c :: nat) \<and> (of_char c :: nat) \<le> 57)"

definition digit_val :: "char \<Rightarrow> nat" where
  "digit_val c = of_char c - 48"

fun parse_quarter :: "string \<Rightarrow> error + period" where
  "parse_quarter [a, b, c, d, q, n] =
     (if is_digit a \<and> is_digit b \<and> is_digit c \<and> is_digit d \<and> q = CHR ''Q''
         \<and> n \<in> {CHR ''1'', CHR ''2'', CHR ''3'', CHR ''4''}
      then Inr (Quarter (int (1000 * digit_val a + 100 * digit_val b + 10 * digit_val c + digit_val d))
                        (digit_val n))
      else Inl ValueError)"
| "parse_quarter _ = Inl ValueError"

fun period_of_cell :: "cell \<Rightarrow> error + period" where
  "period_of_cell (StrV s) = parse_quarter s"
| "period_of_cell NA = Inr NaT"
| "period_of_cell _ = Inl ValueError"

definition PeriodIndex :: "series \<Rightarrow> error + period list" where
  "PeriodIndex s = map_err period_of_cell s"

fun period_start :: "period \<Rightarrow> cell" where
  "period_start (Quarter y q) = TsV (Timestamp y (3 * (q - 1) + 1) 1)"
| "period_start NaT = NA"

definition to_timestamp :: "period list \<Rightarrow> series" where
  "to_timestamp ps = map period_start ps"

text \<open>The order of timestamps, and of the cells that hold them.\<close>

fun ts_less :: "timestamp \<Rightarrow> timestamp \<Rightarrow> bool" where
  "ts_less (Timestamp y m d) (Timestamp y' m' d') =
     (y < y' \<or> (y = y' \<and> (m < m' \<or> (m = m' \<and> d < d'))))"

fun date_less :: "cell \<Rightarrow> cell \<Rightarrow> bool" where
  "date_less (TsV a) (TsV b) = ts_less a b"
| "date_less _ _ = False"

text \<open>\<open>s.min()\<close> on a date column: missing values are skipped, an empty column gives NA.\<close>

fun series_min :: "series \<Rightarrow> cell" where
  "series_min [] = NA"
| "series_min (x # xs) =
     (let m = series_min xs in
      if x = NA then m else if m = NA then x else if date_less m x then m else x)"

section \<open>Strings\<close>

text \<open>
  Python strings are sequences of code points; the model covers the code points below
  256, one \<open>char\<close> each, with \<open>str.isspace\<close>, \<open>str.isalnum\<close> and \<open>str.lower\<close> as
  Unicode defines them there.
\<close>

definition py_isspace :: "char \<Rightarrow> bool" where
  "py_isspace c = (let n = (of_char c :: nat) in
     (9 \<le> n \<and> n \<le> 13) \<or> (28 \<le> n \<and> n \<le> 32) \<or> n = 133 \<or> n = 160)"

definition py_isalnum :: "char \<Rightarrow> bool" where
  "py_isalnum c = (let n = (of_char c :: nat) in
     (48 \<le> n \<and> n \<le> 57) \<or> (65 \<le> n \<and> n \<le> 90) \<or> (97 \<le> n \<and> n \<le> 122)
     \<or> n = 170 \<or> n = 178 \<or> n = 179 \<or> n = 181 \<or> n = 185 \<or> n = 186
     \<or> (188 \<le> n \<and> n \<le> 190)
     \<or> (192 \<le> n \<and> n \<noteq> 215 \<and> n \<noteq> 247))"

definition lower_char :: "char \<Rightarrow> char" where
  "lower_char c = (let n = (of_char c :: nat) in
     if (65 \<le> n \<and> n \<le> 90) \<or> (192 \<le> n \<and> n \<le> 222 \<and> n \<noteq> 215)
     then char_of (n + 32) else c)"

definition py_lower :: "string \<Rightarrow> string" where
  "py_lower s = map lower_char s"

definition py_strip :: "string \<Rightarrow> string" where
  "py_strip s = rev (dropWhile py_isspace (rev (dropWhile py_isspace s)))"

text \<open>\<open>s * n\<close> on a string: no copies for a count that is zero or negative.\<close>

definition str_mul :: "string \<Rightarrow> int \<Rightarrow> string" where
  "str_mul s n = concat (replicate (nat n) s)"

text \<open>\<open>str(n)\<close> for an integer, as the f-strings of the file names insert it.\<close>

definition digit_char :: "nat \<Rightarrow> char" where
  "digit_char n = ''0123456789'' ! n"

fun str_nat :: "nat \<Rightarrow> string" where
  "str_nat n = (if n < 10 then [digit_char n] else str_nat (n div 10) @ [digit_char (n mod 10)])"

declare str_nat.simps [simp del]

definition str_int :: "int \<Rightarrow> string" where
  "str_int i = (if i < 0 then CHR ''-'' # str_nat (nat (- i)) else str_nat (nat i))"

text \<open>\<open>os.path.join(a, b)\<close> on a POSIX system.\<close>

definition path_join :: "string \<Rightarrow> string \<Rightarrow> string" where
  "path_join a b =
     (if b \<noteq> [] \<and> hd b = CHR ''/'' then b
      else if a = [] \<or> last a = CHR ''/'' then a @ b
      else a @ ''/'' @ b)"

section \<open>The program state\<close>

text \<open>
  Dataframes and series are Python objects, passed by reference: the state holds a
  store of frames and a store of series, an address being an index into it. Copies and
  the results of indexing are new objects at the end of the store; a column
  assignment overwrites the object at its address.

  The plotting backend keeps the open figures, the last one being the current figure.
  A figure is the figure size and the calls made on it, in order. The file system is
  the list of images written (the newest first), the directories created, and the
  paths on which the operating system refuses a write. Standard output is the list of
  lines printed.
\<close>

datatype draw_cmd =
    Plot series series string string
  | Axvline cell string string
  | Barh series series string
  | Set_title string
  | Set_xlabel string
  | Set_ylabel string
  | Legend
  | Grid
  | Invert_yaxis
  | Xticks
  | Tight_layout

record figure =
  fig_size :: "rat \<times> rat"
  cmds :: "draw_cmd list"

datatype out_line = Text string | Row_line cell cell string

record world =
  frames :: "frame list"
  sers :: "series list"
  figs :: "figure list"
  files :: "(string \<times> figure) list"
  dirs :: "string list"
  denied :: "string list"
  shown :: "figure list"
  stdout :: "out_line list"

type_synonym 'a prog = "world \<Rightarrow> (error + 'a) \<times> world"

definition ret :: "'a \<Rightarrow> 'a prog" where
  "ret x w = (Inr x, w)"

definition lift :: "error + 'a \<Rightarrow> 'a prog" where
  "lift r w = (r, w)"

text \<open>Sequencing: an exception ends the call, in the state reached so far.\<close>

definition bind :: "'a prog \<Rightarrow> ('a \<Rightarrow> 'b prog) \<Rightarrow> 'b prog" where
  "bind f g w = (case f w of (Inl e, w') \<Rightarrow> (Inl e, w') | (Inr x, w') \<Rightarrow> g x w')"

subsection \<open>Dataframe objects\<close>

definition df_new :: "frame \<Rightarrow> nat prog" where
  "df_new f w = (Inr (length (frames w)), w\<lparr>frames := frames w @ [f]\<rparr>)"

definition df_copy :: "nat \<Rightarrow> nat prog" where
  "df_copy a w = df_new (frames w ! a) w"

text \<open>An expression that reads the object at an address.\<close>

definition df_eval :: "nat \<Rightarrow> (frame \<Rightarrow> error + 'a) \<Rightarrow> 'a prog" where
  "df_eval a f w = (f (frames w ! a), w)"

text \<open>An expression that makes a new dataframe from the object at an address.\<close>

definition df_derive :: "nat \<Rightarrow> (frame \<Rightarrow> error + frame) \<Rightarrow> nat prog" where
  "df_derive a f = bind (df_eval a f) df_new"

definition df_setitem :: "nat \<Rightarrow> string \<Rightarrow> series \<Rightarrow> unit prog" where
  "df_setitem a name vals w =
     (Inr (), w\<lparr>frames := (frames w)[a := setitem (frames w ! a) name vals]\<rparr>)"

text \<open>
  \<open>df[name] = s\<close> for a series object \<open>s\<close>: pandas aligns the series with the index of
  the frame. The alignment is the library's; it is the parameter \<open>align\<close>, which gives
  the new value of the frame or raises.
\<close>

definition df_setitem_series ::
  "(frame \<Rightarrow> string \<Rightarrow> series \<Rightarrow> error + frame) \<Rightarrow> nat \<Rightarrow> string \<Rightarrow> nat \<Rightarrow> unit prog" where
  "df_setitem_series align a name s w =
     (case align (frames w ! a) name (sers w ! s) of
        Inl e \<Rightarrow> (Inl e, w)
      | Inr f \<Rightarrow> (Inr (), w\<lparr>frames := (frames w)[a := f]\<rparr>))"

text \<open>\<open>df[[k1, k2]]\<close>: the named columns, KeyError when one is missing.\<close>

definition select_cols :: "string list \<Rightarrow> frame \<Rightarrow> error + frame" where
  "select_cols names df =
     map_err (\<lambda>k. case getitem df k of Inl e \<Rightarrow> Inl e | Inr c \<Rightarrow> Inr (k, c)) names"

text \<open>
  \<open>pd.concat([a, b], ignore_index=True)\<close>: the rows of \<open>a\<close>, then those of \<open>b\<close>; a
  column that one of the two lacks is filled with missing values.
\<close>

definition col_or_na :: "frame \<Rightarrow> string \<Rightarrow> series" where
  "col_or_na df k = (case map_of df k of Some c \<Rightarrow> c | None \<Rightarrow> replicate (nrows df) NA)"

definition concat2 :: "frame \<Rightarrow> frame \<Rightarrow> frame" where
  "concat2 a b =
     map (\<lambda>k. (k, col_or_na a k @ col_or_na b k))
         (map fst a @ filter (\<lambda>k. k \<notin> set (map fst a)) (map fst b))"

definition pd_concat :: "nat \<Rightarrow> nat \<Rightarrow> nat prog" where
  "pd_concat a b w = df_new (concat2 (frames w ! a) (frames w ! b)) w"

subsection \<open>The plotting backend and the file system\<close>

definition plt_subplots :: "rat \<times> rat \<Rightarrow> nat prog" where
  "plt_subplots fs w =
     (Inr (length (figs w)), w\<lparr>figs := figs w @ [\<lparr>fig_size = fs, cmds = []\<rparr>]\<rparr>)"

definition draw :: "draw_cmd \<Rightarrow> figure \<Rightarrow> figure" where
  "draw c fig = fig\<lparr>cmds := cmds fig @ [c]\<rparr>"

text \<open>A call on the axes object \<open>ax\<close>.\<close>

definition ax_call :: "nat \<Rightarrow> draw_cmd \<Rightarrow> unit prog" where
  "ax_call ax c w = (Inr (), w\<lparr>figs := (figs w)[ax := draw c (figs w ! ax)]\<rparr>)"

text \<open>The current figure; pyplot makes one when none is open.\<close>

definition plt_gcf :: "nat prog" where
  "plt_gcf w = (if figs w = [] then plt_subplots (32 / 5, 24 / 5) w
                else (Inr (length (figs w) - 1), w))"

definition plt_call :: "draw_cmd \<Rightarrow> unit prog" where
  "plt_call c = bind plt_gcf (\<lambda>i. ax_call i c)"

definition os_makedirs :: "string \<Rightarrow> unit prog" where
  "os_makedirs d w =
     (if d \<in> set (denied w) then (Inl OSError, w)
      else (Inr (), w\<lparr>dirs := List.insert d (dirs w)\<rparr>))"

definition plt_savefig :: "string \<Rightarrow> unit prog" where
  "plt_savefig path =
     bind plt_gcf (\<lambda>i w.
       if path \<in> set (denied w) then (Inl OSError, w)
       else (Inr (), w\<lparr>files := (path, figs w ! i) # files w\<rparr>))"

definition plt_show :: "unit prog" where
  "plt_show w = (Inr (), w\<lparr>shown := shown w @ figs w\<rparr>)"

definition plt_close :: "unit prog" where
  "plt_close w = (Inr (), w\<lparr>figs := butlast (figs w)\<rparr>)"

definition print_line :: "out_line \<Rightarrow> unit prog" where
  "print_line l w = (Inr (), w\<lparr>stdout := stdout w @ [l]\<rparr>)"

section \<open>The Visualizer\<close>

record visualizer =
  figsize :: "rat \<times> rat"
  show_plots :: bool
  output_dir :: string

definition Visualizer :: "rat \<times> rat \<Rightarrow> bool \<Rightarrow> visualizer" where
  "Visualizer fs sp =
     \<lparr>figsize = fs, show_plots = sp, output_dir = path_join ''outputs'' ''plots''\<rparr>"

definition save_fig :: "visualizer \<Rightarrow> string \<Rightarrow> unit prog" where
  "save_fig self filename =
     bind (os_makedirs (output_dir self)) (\<lambda>_.
     plt_savefig (path_join (output_dir self) filename))"

text \<open>
  The end of every plotting method: the figure is saved, then shown or closed
  (lines 131 to 135, 221 to 225 and 258 to 262).
\<close>

definition show_or_close :: "visualizer \<Rightarrow> unit prog" where
  "show_or_close self = (if show_plots self then plt_show else plt_close)"

definition finish :: "visualizer \<Rightarrow> string \<Rightarrow> unit prog" where
  "finish self filename = bind (save_fig self filename) (\<lambda>_. show_or_close self)"

subsection \<open>add_quarter_date\<close>

definition quarter_dates :: "frame \<Rightarrow> error + series" where
  "quarter_dates df =
     (case getitem df ''year_quarter'' of Inl e \<Rightarrow> Inl e
      | Inr yq \<Rightarrow> (case PeriodIndex yq of Inl e \<Rightarrow> Inl e | Inr ps \<Rightarrow> Inr (to_timestamp ps)))"

definition add_quarter_date :: "nat \<Rightarrow> nat prog" where
  "add_quarter_date df =
     bind (df_copy df) (\<lambda>df_copy.
     bind (df_eval df_copy quarter_dates) (\<lambda>dates.
     bind (df_setitem df_copy ''date'' dates) (\<lambda>_.
     ret df_copy)))"

text \<open>Reading a column of the object at an address.\<close>

definition getcol :: "nat \<Rightarrow> string \<Rightarrow> series prog" where
  "getcol a name = df_eval a (\<lambda>f. getitem f name)"

subsection \<open>plot_actual_vs_predicted\<close>

text \<open>
  The historical context: the rows of \<open>hist_df\<close> selected by
  \<open>(hist_df['year'] <= year - 1) & (hist_df['year'] >= year - hist_years)\<close>.
\<close>

definition train_hist_of :: "int \<Rightarrow> int \<Rightarrow> frame \<Rightarrow> error + frame" where
  "train_hist_of year hist_years hist_df =
     (case getitem hist_df ''year'' of Inl e \<Rightarrow> Inl e | Inr y1 \<Rightarrow>
     (case series_le y1 (year - 1) of Inl e \<Rightarrow> Inl e | Inr m1 \<Rightarrow>
     (case getitem hist_df ''year'' of Inl e \<Rightarrow> Inl e | Inr y2 \<Rightarrow>
     (case series_ge y2 (year - hist_years) of Inl e \<Rightarrow> Inl e | Inr m2 \<Rightarrow>
        Inr (mask_frame hist_df (mask_and m1 m2))))))"

text \<open>Lines 72 and 73: the test frame with its dates and the \<open>predicted\<close> column.\<close>

definition prepare_test ::
  "(frame \<Rightarrow> string \<Rightarrow> series \<Rightarrow> error + frame) \<Rightarrow> nat \<Rightarrow> nat \<Rightarrow> nat prog" where
  "prepare_test align test_df predictions =
     bind (df_copy test_df) (\<lambda>tc.
     bind (add_quarter_date tc) (\<lambda>plot_df.
     bind (df_setitem_series align plot_df ''predicted'' predictions) (\<lambda>_.
     ret plot_df)))"

text \<open>Lines 78 to 90: the historical line, when \<open>historical_df\<close> is given.\<close>

definition plot_historical_context :: "nat \<Rightarrow> int \<Rightarrow> int \<Rightarrow> nat \<Rightarrow> unit prog" where
  "plot_historical_context ax year hist_years historical_df =
     bind (df_copy historical_df) (\<lambda>hc.
     bind (add_quarter_date hc) (\<lambda>hist_df.
     bind (df_derive hist_df (train_hist_of year hist_years)) (\<lambda>train_hist.
     bind (getcol train_hist ''date'') (\<lambda>xs.
     bind (getcol train_hist ''casos_est'') (\<lambda>ys.
     ax_call ax (Plot xs ys ''b-'' ''Historical (train)''))))))"

text \<open>Lines 92 to 135: the two lines of the test year, the marker, the labels, the file.\<close>

definition draw_actual_vs_predicted :: "visualizer \<Rightarrow> nat \<Rightarrow> nat \<Rightarrow> string \<Rightarrow> int \<Rightarrow> unit prog" where
  "draw_actual_vs_predicted self ax plot_df model_name year =
     bind (getcol plot_df ''date'') (\<lambda>xs.
     bind (getcol plot_df ''casos_est'') (\<lambda>ys.
     bind (ax_call ax (Plot xs ys ''g-o'' (''Actual ('' @ str_int year @ '')''))) (\<lambda>_.
     bind (getcol plot_df ''date'') (\<lambda>xs'.
     bind (getcol plot_df ''predicted'') (\<lambda>ys'.
     bind (ax_call ax (Plot xs' ys' ''r--s'' (''Predicted ('' @ str_int year @ '')''))) (\<lambda>_.
     bind (getcol plot_df ''date'') (\<lambda>ds.
     bind (ax_call ax (Axvline (series_min ds) ''gray'' ''Forecast start'')) (\<lambda>_.
     bind (ax_call ax (Set_title (str_int year @ '': Actual vs Predicted ('' @ model_name @ '')''))) (\<lambda>_.
     bind (ax_call ax (Set_xlabel ''Quarter'')) (\<lambda>_.
     bind (ax_call ax (Set_ylabel ''Quarterly Cases'')) (\<lambda>_.
     bind (ax_call ax Legend) (\<lambda>_.
     bind (ax_call ax Grid) (\<lambda>_.
     bind (plt_call Xticks) (\<lambda>_.
     bind (plt_call Tight_layout) (\<lambda>_.
     finish self (''actual_vs_predicted_'' @ str_int year @ ''_'' @ model_name @ ''.png''))))))))))))))))"

definition plot_actual_vs_predicted ::
  "(frame \<Rightarrow> string \<Rightarrow> series \<Rightarrow> error + frame) \<Rightarrow> visualizer \<Rightarrow> nat \<Rightarrow> nat \<Rightarrow> string \<Rightarrow> int
     \<Rightarrow> nat option \<Rightarrow> int \<Rightarrow> unit prog" where
  "plot_actual_vs_predicted align self test_df predictions model_name year historical_df hist_years =
     bind (prepare_test align test_df predictions) (\<lambda>plot_df.
     bind (plt_subplots (figsize self)) (\<lambda>ax.
     bind (case historical_df of None \<Rightarrow> ret ()
           | Some h \<Rightarrow> plot_historical_context ax year hist_years h) (\<lambda>_.
     draw_actual_vs_predicted self ax plot_df model_name year)))"

subsection \<open>plot_forecast\<close>

text \<open>The truth value of \<open>hist_start_year\<close>, an integer or \<open>None\<close>.\<close>

definition truthy :: "int option \<Rightarrow> bool" where
  "truthy v = (case v of None \<Rightarrow> False | Some n \<Rightarrow> n \<noteq> 0)"

text \<open>\<open>hist_plot[hist_plot['year'] >= hist_start_year]\<close>.\<close>

definition from_year :: "int \<Rightarrow> frame \<Rightarrow> error + frame" where
  "from_year y hist_plot =
     (case getitem hist_plot ''year'' of Inl e \<Rightarrow> Inl e | Inr ys \<Rightarrow>
     (case series_ge ys y of Inl e \<Rightarrow> Inl e | Inr m \<Rightarrow>
        Inr (mask_frame hist_plot m)))"

definition filter_historical :: "nat \<Rightarrow> int option \<Rightarrow> nat prog" where
  "filter_historical hist_plot hist_start_year =
     (if truthy hist_start_year
      then bind (df_derive hist_plot (from_year (the hist_start_year))) df_copy
      else df_copy hist_plot)"

text \<open>
  Lines 155 to 176: the two frames with their dates, the filtered history, its last
  point, and the forecast with that point in front.
\<close>

definition connect_forecast :: "nat \<Rightarrow> nat \<Rightarrow> int option \<Rightarrow> (nat \<times> nat \<times> nat) prog" where
  "connect_forecast forecast_df historical_df hist_start_year =
     bind (df_copy forecast_df) (\<lambda>fc.
     bind (add_quarter_date fc) (\<lambda>forecast_plot.
     bind (df_copy historical_df) (\<lambda>hc.
     bind (add_quarter_date hc) (\<lambda>hist_plot.
     bind (filter_historical hist_plot hist_start_year) (\<lambda>hist.
     bind (getcol hist ''date'') (\<lambda>hdates.
     bind (lift (iloc_last hdates)) (\<lambda>last_hist_date.
     bind (getcol hist ''casos_est'') (\<lambda>hvalues.
     bind (lift (iloc_last hvalues)) (\<lambda>last_hist_value.
     bind (df_new [(''date'', [last_hist_date]),
                   (''predicted_casos_est'', [last_hist_value])]) (\<lambda>anchor.
     bind (df_derive forecast_plot (select_cols [''date'', ''predicted_casos_est''])) (\<lambda>sel.
     bind (pd_concat anchor sel) (\<lambda>forecast_connected.
     ret (forecast_plot, hist, forecast_connected)))))))))))))"

text \<open>Lines 178 to 225: the figure, its two lines, the marker, the labels, the file.\<close>

definition draw_forecast ::
  "visualizer \<Rightarrow> nat \<Rightarrow> nat \<Rightarrow> nat \<Rightarrow> int \<Rightarrow> string \<Rightarrow> unit prog" where
  "draw_forecast self forecast_plot hist forecast_connected forecast_year model_name =
     bind (plt_subplots (figsize self)) (\<lambda>ax.
     bind (getcol hist ''date'') (\<lambda>xs.
     bind (getcol hist ''casos_est'') (\<lambda>ys.
     bind (ax_call ax (Plot xs ys ''blue'' ''Historical'')) (\<lambda>_.
     bind (getcol forecast_connected ''date'') (\<lambda>xs'.
     bind (getcol forecast_connected ''predicted_casos_est'') (\<lambda>ys'.
     bind (ax_call ax (Plot xs' ys' ''r--o'' (''Forecast '' @ str_int forecast_year))) (\<lambda>_.
     bind (getcol forecast_plot ''date'') (\<lambda>ds.
     bind (ax_call ax (Axvline (series_min ds) ''black'' ''Forecast start'')) (\<lambda>_.
     bind (ax_call ax (Set_title (str_int forecast_year @ '' Forecast ('' @ model_name @ '')''))) (\<lambda>_.
     bind (ax_call ax (Set_xlabel ''Quarter'')) (\<lambda>_.
     bind (ax_call ax (Set_ylabel ''Quarterly Cases'')) (\<lambda>_.
     bind (ax_call ax Grid) (\<lambda>_.
     bind (ax_call ax Legend) (\<lambda>_.
     bind (plt_call Xticks) (\<lambda>_.
     bind (plt_call Tight_layout) (\<lambda>_.
     finish self (''forecast_'' @ str_int forecast_year @ ''_'' @ model_name @ ''.png'')))))))))))))))))"

definition plot_forecast ::
  "visualizer \<Rightarrow> nat \<Rightarrow> nat \<Rightarrow> int \<Rightarrow> string \<Rightarrow> int option \<Rightarrow> unit prog" where
  "plot_forecast self forecast_df historical_df forecast_year model_name hist_start_year =
     bind (connect_forecast forecast_df historical_df hist_start_year)
       (\<lambda>(forecast_plot, hist, forecast_connected).
     draw_forecast self forecast_plot hist forecast_connected forecast_year model_name)"

subsection \<open>plot_feature_importance\<close>

text \<open>The file-name fragment made from the title.\<close>

definition safe_char :: "char \<Rightarrow> char" where
  "safe_char c = (if py_isalnum c \<or> c \<in> {CHR ''-'', CHR ''_''} then c else CHR ''_'')"

definition safe_title :: "string \<Rightarrow> string" where
  "safe_title title = map safe_char (py_lower (py_strip title))"

definition plot_feature_importance :: "visualizer \<Rightarrow> nat \<Rightarrow> string \<Rightarrow> unit prog" where
  "plot_feature_importance self importance_df title =
     bind (plt_subplots (10, 6)) (\<lambda>ax.
     bind (getcol importance_df ''Feature'') (\<lambda>fs.
     bind (getcol importance_df ''Importance'') (\<lambda>vs.
     bind (ax_call ax (Barh fs vs ''steelblue'')) (\<lambda>_.
     bind (ax_call ax (Set_xlabel ''Importance'')) (\<lambda>_.
     bind (ax_call ax (Set_title title)) (\<lambda>_.
     bind (ax_call ax Invert_yaxis) (\<lambda>_.
     bind (ax_call ax Grid) (\<lambda>_.
     bind (plt_call Tight_layout) (\<lambda>_.
     finish self (''feature_importance_'' @ safe_title title @ ''.png''))))))))))"

subsection \<open>print_feature_importance\<close>

text \<open>
  \<open>int(row['Importance'] * 50)\<close>: the product, truncated towards zero. A missing value
  or a string has no integer value, a timestamp has no product.
\<close>

fun bar_count :: "cell \<Rightarrow> error + int" where
  "bar_count (IntV i) = Inr (i * 50)"
| "bar_count (NumV r) = Inr (if 0 \<le> r then \<lfloor>r * 50\<rfloor> else \<lceil>r * 50\<rceil>)"
| "bar_count NA = Inl ValueError"
| "bar_count (StrV s) = Inl ValueError"
| "bar_count (TsV t) = Inl TypeError"

text \<open>The bar of a row: the glyph of the source, the empty string, repeated.\<close>

definition bar_of :: "cell \<Rightarrow> error + string" where
  "bar_of v = (case bar_count v of Inl e \<Rightarrow> Inl e | Inr n \<Rightarrow> Inr (str_mul [] n))"

definition row_get :: "frame \<Rightarrow> nat \<Rightarrow> string \<Rightarrow> error + cell" where
  "row_get df i name = (case getitem df name of Inl e \<Rightarrow> Inl e | Inr c \<Rightarrow> Inr (c ! i))"

text \<open>
  The loop over \<open>iterrows()\<close>. A printed row is its three fields: the feature, padded
  to 25 columns, the importance, with four decimals, and the bar.
\<close>

fun print_rows :: "frame \<Rightarrow> nat list \<Rightarrow> unit prog" where
  "print_rows df [] = ret ()"
| "print_rows df (i # rest) =
     bind (lift (row_get df i ''Importance'')) (\<lambda>v.
     bind (lift (bar_of v)) (\<lambda>bar.
     bind (lift (row_get df i ''Feature'')) (\<lambda>feature.
     bind (lift (row_get df i ''Importance'')) (\<lambda>importance.
     bind (print_line (Row_line feature importance bar)) (\<lambda>_.
     print_rows df rest)))))"

definition print_feature_importance :: "visualizer \<Rightarrow> nat \<Rightarrow> string \<Rightarrow> unit prog" where
  "print_feature_importance self importance_df title =
     bind (print_line (Text (CHR 0x0A # replicate 80 CHR ''=''))) (\<lambda>_.
     bind (print_line (Text (''[SEARCH] '' @ title))) (\<lambda>_.
     bind (print_line (Text (replicate 80 CHR ''=''))) (\<lambda>_.
     bind (df_eval importance_df Inr) (\<lambda>df.
     print_rows df [0..<nrows df]))))"

section \<open>The forecaster\<close>

text \<open>
  Modelled from the spec: the class \<open>Forecaster\<close> with its method
  \<open>refit_and_forecast\<close> is not among the sources; only the test that calls it is. The
  spec says that it refits the model on the allowed history (the rows up to
  \<open>train_max_year\<close>, without the excluded years) and produces a forecast dataframe
  with one row per quarter of the forecast year, each row a \<open>year_quarter\<close> and a
  \<open>predicted_casos_est\<close>. The regression model is a parameter: a function from the
  training frame, the feature columns and the target quarter to the predicted value.
\<close>

fun allowed_year :: "int \<Rightarrow> int list \<Rightarrow> cell \<Rightarrow> bool" where
  "allowed_year train_max_year exclude_years (IntV y) =
     (y \<le> train_max_year \<and> y \<notin> set exclude_years)"
| "allowed_year train_max_year exclude_years _ = False"

definition allowed_history :: "frame \<Rightarrow> int \<Rightarrow> int list \<Rightarrow> frame" where
  "allowed_history df_feat train_max_year exclude_years =
     mask_frame df_feat (map (allowed_year train_max_year exclude_years) (col_or_na df_feat ''year''))"

definition quarter_label :: "int \<Rightarrow> nat \<Rightarrow> string" where
  "quarter_label y q = str_int y @ ''Q'' @ str_nat q"

definition refit_and_forecast ::
  "frame \<Rightarrow> string list \<Rightarrow> (frame \<Rightarrow> string list \<Rightarrow> string \<Rightarrow> cell) \<Rightarrow> int \<Rightarrow> int \<Rightarrow> int list \<Rightarrow> frame" where
  "refit_and_forecast df_feat feature_cols model forecast_year train_max_year exclude_years =
     (let train = allowed_history df_feat train_max_year exclude_years;
          quarters = map (quarter_label forecast_year) [1, 2, 3, 4]
      in [(''year_quarter'', map StrV quarters),
          (''predicted_casos_est'', map (model train feature_cols) quarters)])"

section \<open>Notions used in the properties\<close>

text \<open>
  The file-name fragment as the specification words it: the title in lower case,
  every character that is not alphanumeric, a hyphen or an underscore replaced.
\<close>

definition spec_fragment :: "string \<Rightarrow> string" where
  "spec_fragment title = map safe_char (py_lower title)"

text \<open>A year cell inside the closed interval from \<open>lo\<close> to \<open>hi\<close>.\<close>

fun year_in :: "int \<Rightarrow> int \<Rightarrow> cell \<Rightarrow> bool" where
  "year_in lo hi (IntV i) = (lo \<le> i \<and> i \<le> hi)"
| "year_in lo hi (NumV r) = (of_int lo \<le> r \<and> r \<le> of_int hi)"
| "year_in lo hi _ = False"

text \<open>
  The value of \<open>hist\<close> in \<open>plot_forecast\<close> (lines 157 to 163), as a function of the
  historical frame: its dates added, then the optional filter.
\<close>

definition historical_view :: "frame \<Rightarrow> int option \<Rightarrow> error + frame" where
  "historical_view historical_df hist_start_year =
     (case quarter_dates historical_df of Inl e \<Rightarrow> Inl e
      | Inr d \<Rightarrow>
          (if truthy hist_start_year
           then from_year (the hist_start_year) (setitem historical_df ''date'' d)
           else Inr (setitem historical_df ''date'' d)))"

text \<open>A frame without rows: every column is empty.\<close>

definition no_rows :: "frame \<Rightarrow> bool" where
  "no_rows df = list_all (\<lambda>(k, c). c = []) df"

text \<open>The figure that \<open>draw_forecast\<close> builds from the columns it reads.\<close>

definition forecast_figure ::
  "visualizer \<Rightarrow> series \<Rightarrow> series \<Rightarrow> series \<Rightarrow> series \<Rightarrow> series \<Rightarrow> int \<Rightarrow> string \<Rightarrow> figure" where
  "forecast_figure self xs ys xs' ys' ds forecast_year model_name =
     \<lparr>fig_size = figsize self,
      cmds = [Plot xs ys ''blue'' ''Historical'',
              Plot xs' ys' ''r--o'' (''Forecast '' @ str_int forecast_year),
              Axvline (series_min ds) ''black'' ''Forecast start'',
              Set_title (str_int forecast_year @ '' Forecast ('' @ model_name @ '')''),
              Set_xlabel ''Quarter'', Set_ylabel ''Quarterly Cases'', Grid, Legend,
              Xticks, Tight_layout]\<rparr>"

text \<open>
  A triple for a call: from a state that satisfies \<open>P\<close>, a normal return with value
  \<open>x\<close> ends in a state that satisfies \<open>Q x\<close>, an exception in one that satisfies \<open>E\<close>.
\<close>

definition triple ::
  "(world \<Rightarrow> bool) \<Rightarrow> 'a prog \<Rightarrow> ('a \<Rightarrow> world \<Rightarrow> bool) \<Rightarrow> (world \<Rightarrow> bool) \<Rightarrow> bool" where
  "triple P f Q E =
     (\<forall>w. P w \<longrightarrow> (case f w of (Inl e, w') \<Rightarrow> E w' | (Inr x, w') \<Rightarrow> Q x w'))"

text \<open>
  The objects of \<open>w0\<close> are still in \<open>w\<close>, at their addresses and with their values.
\<close>

definition extends :: "world \<Rightarrow> world \<Rightarrow> bool" where
  "extends w0 w = (take (length (frames w0)) (frames w) = frames w0 \<and> sers w = sers w0)"

text \<open>
  A plotting method at work on its figure: the open figures are those in \<open>G\<close> and one
  more, on which the calls \<open>cs\<close> have been made first, and the files written are \<open>Fl\<close>.
\<close>

definition drawing :: "figure list \<Rightarrow> draw_cmd list \<Rightarrow> (string \<times> figure) list \<Rightarrow> world \<Rightarrow> bool" where
  "drawing G cs Fl w = (\<exists>f rest. figs w = G @ [f] \<and> cmds f = cs @ rest \<and> files w = Fl)"

subsection \<open>Example data\<close>

definition example_forecast :: frame where
  "example_forecast =
     [(''year_quarter'', map StrV [''2026Q1'', ''2026Q2'', ''2026Q3'', ''2026Q4'']),
      (''predicted_casos_est'', [NumV 110, NumV 120, NumV 130, NumV 140])]"

definition example_history :: frame where
  "example_history =
     [(''year_quarter'', map StrV [''2022Q4'', ''2023Q1'', ''2024Q3'', ''2025Q4'']),
      (''year'', [IntV 2022, IntV 2023, IntV 2024, IntV 2025]),
      (''casos_est'', [NumV 50, NumV 60, NumV 70, NumV 80])]"

definition example_test :: frame where
  "example_test =
     [(''year_quarter'', map StrV [''2025Q1'', ''2025Q2'', ''2025Q3'', ''2025Q4'']),
      (''year'', [IntV 2025, IntV 2025, IntV 2025, IntV 2025]),
      (''casos_est'', [NumV 75, NumV 85, NumV 95, NumV 65])]"

definition example_importance :: frame where
  "example_importance =
     [(''Feature'', [StrV ''lag_1'']), (''Importance'', [NumV (1 / 2)])]"

definition example_world :: world where
  "example_world =
     \<lparr>frames = [example_forecast, example_history, example_test, example_importance,
                [(''Importance'', [NumV (1 / 2)])]],
      sers = [[NumV 70, NumV 90, NumV 100, NumV 60]],
      figs = [], files = [], dirs = [], denied = [], shown = [], stdout = []\<rparr>"

definition example_visualizer :: visualizer where
  "example_visualizer = Visualizer (12, 5) False"

text \<open>The alignment of a series that has the index of the frame: its values, as they are.\<close>

definition positional :: "frame \<Rightarrow> string \<Rightarrow> series \<Rightarrow> error + frame" where
  "positional f name s = Inr (setitem f name s)"

section \<open>Lemmas on frames\<close>

lemma map_of_setitem_same: "map_of (setitem df k v) k = Some v"
  by (induction df) auto

lemma map_of_setitem_other: "k' \<noteq> k \<Longrightarrow> map_of (setitem df k v) k' = map_of df k'"
  by (induction df) auto

lemma getitem_setitem_same: "getitem (setitem df k v) k = Inr v"
  by (simp add: getitem_def map_of_setitem_same)

lemma getitem_setitem_other: "k' \<noteq> k \<Longrightarrow> getitem (setitem df k v) k' = getitem df k'"
  by (simp add: getitem_def map_of_setitem_other)

lemma map_of_mask_frame:
  "map_of (mask_frame df m) k = map_option (\<lambda>c. mask_series c m) (map_of df k)"
  by (induction df) (auto simp: mask_frame_def)

lemma getitem_mask_frame:
  "getitem (mask_frame df m) k =
     (case getitem df k of Inl e \<Rightarrow> Inl e | Inr c \<Rightarrow> Inr (mask_series c m))"
  by (simp add: getitem_def map_of_mask_frame split: option.splits)

section \<open>Lemmas on calls\<close>

lemma add_quarter_date_run:
  "add_quarter_date a w =
     (case quarter_dates (frames w ! a) of
        Inl e \<Rightarrow> (Inl e, w\<lparr>frames := frames w @ [frames w ! a]\<rparr>)
      | Inr d \<Rightarrow> (Inr (length (frames w)),
                  w\<lparr>frames := frames w @ [setitem (frames w ! a) ''date'' d]\<rparr>))"
  by (simp add: add_quarter_date_def bind_def df_copy_def df_new_def df_eval_def
      df_setitem_def ret_def split: sum.splits)

lemma bind_returns:
  assumes "bind f g w = (Inr u, w')"
  obtains x w1 where "f w = (Inr x, w1)" and "g x w1 = (Inr u, w')"
  using assms by (auto simp: bind_def split: prod.splits sum.splits)

lemma tripleI:
  "(\<And>w e w'. P w \<Longrightarrow> f w = (Inl e, w') \<Longrightarrow> E w')
   \<Longrightarrow> (\<And>w x w'. P w \<Longrightarrow> f w = (Inr x, w') \<Longrightarrow> Q x w') \<Longrightarrow> triple P f Q E"
  by (auto simp: triple_def split: prod.splits sum.splits)

lemma triple_returns: "triple P f Q E \<Longrightarrow> P w \<Longrightarrow> f w = (Inr x, w') \<Longrightarrow> Q x w'"
  by (auto simp: triple_def)

lemma triple_raises: "triple P f Q E \<Longrightarrow> P w \<Longrightarrow> f w = (Inl e, w') \<Longrightarrow> E w'"
  by (auto simp: triple_def)

lemma triple_bind:
  assumes "triple P f Q E" and "\<And>x. triple (Q x) (g x) R E"
  shows "triple P (bind f g) R E"
  using assms unfolding triple_def bind_def
  by (fastforce split: prod.splits sum.splits)

lemma triple_seq:
  assumes "triple I f (\<lambda>_. I) E" and "\<And>x. triple I (g x) R E"
  shows "triple I (bind f g) R E"
  using assms by (rule triple_bind)

lemma triple_weaken:
  assumes "triple P f Q E" and "\<And>w. P' w \<Longrightarrow> P w" and "\<And>x w. Q x w \<Longrightarrow> Q' x w"
    and "\<And>w. E w \<Longrightarrow> E' w"
  shows "triple P' f Q' E'"
  using assms unfolding triple_def by (fastforce split: prod.splits sum.splits)


section \<open>The objects of the caller are kept\<close>

lemma extends_refl: "extends w w"
  by (simp add: extends_def)

lemma extends_length:
  assumes "extends w0 w"
  shows "length (frames w0) \<le> length (frames w)"
proof -
  have "take (length (frames w0)) (frames w) = frames w0"
    using assms by (simp add: extends_def)
  then have "length (take (length (frames w0)) (frames w)) = length (frames w0)"
    by (rule arg_cong)
  then show ?thesis by simp
qed

lemma extends_new:
  "extends w0 w \<Longrightarrow> extends w0 (w\<lparr>frames := frames w @ [f]\<rparr>)"
  using extends_length [of w0 w] by (simp add: extends_def)

lemma extends_update:
  "extends w0 w \<Longrightarrow> length (frames w0) \<le> a \<Longrightarrow> extends w0 (w\<lparr>frames := (frames w)[a := f]\<rparr>)"
  by (simp add: extends_def)

lemma kept_heap:
  "triple (extends w0) (df_new f) (\<lambda>c w. extends w0 w \<and> length (frames w0) \<le> c) (extends w0)"
  "triple (extends w0) (df_copy a) (\<lambda>c w. extends w0 w \<and> length (frames w0) \<le> c) (extends w0)"
  "triple (extends w0) (df_eval a g) (\<lambda>_. extends w0) (extends w0)"
  "triple (extends w0) (getcol a k) (\<lambda>_. extends w0) (extends w0)"
  "triple (extends w0) (df_derive a h) (\<lambda>_. extends w0) (extends w0)"
  "triple (extends w0) (pd_concat a b) (\<lambda>_. extends w0) (extends w0)"
  "triple (extends w0) (lift r) (\<lambda>_. extends w0) (extends w0)"
  "triple (extends w0) (ret x) (\<lambda>_. extends w0) (extends w0)"
  using extends_length [of w0]
  by (auto simp: triple_def df_new_def df_copy_def df_eval_def getcol_def df_derive_def
      pd_concat_def lift_def ret_def bind_def extends_new split: sum.splits)

lemma kept_backend:
  "triple (extends w0) (plt_subplots fs) (\<lambda>_. extends w0) (extends w0)"
  "triple (extends w0) (ax_call ax c) (\<lambda>_. extends w0) (extends w0)"
  "triple (extends w0) (plt_call c) (\<lambda>_. extends w0) (extends w0)"
  "triple (extends w0) (finish self fn) (\<lambda>_. extends w0) (extends w0)"
  "triple (extends w0) (print_line l) (\<lambda>_. extends w0) (extends w0)"
  by (auto simp: triple_def plt_subplots_def ax_call_def plt_call_def plt_gcf_def finish_def
      save_fig_def os_makedirs_def plt_savefig_def show_or_close_def plt_show_def plt_close_def
      print_line_def bind_def extends_def split: sum.splits)

lemma kept_add_quarter_date:
  "triple (extends w0) (add_quarter_date a)
     (\<lambda>c w. extends w0 w \<and> length (frames w0) \<le> c) (extends w0)"
  using extends_length [of w0]
  by (auto simp: triple_def add_quarter_date_run extends_new split: sum.splits)

lemma kept_setitem_series:
  "triple (\<lambda>w. extends w0 w \<and> length (frames w0) \<le> a) (df_setitem_series align a k s)
     (\<lambda>_. extends w0) (extends w0)"
  by (auto simp: triple_def df_setitem_series_def extends_update split: sum.splits)

lemma triple_post_true:
  "triple P f (\<lambda>c w. Q w \<and> B c) E \<Longrightarrow> triple P f (\<lambda>_. Q) E"
  unfolding triple_def by (fastforce split: prod.splits sum.splits)

lemmas kept_prims = kept_heap(3-8) kept_backend
  triple_post_true [OF kept_heap(1)] triple_post_true [OF kept_heap(2)]
  triple_post_true [OF kept_add_quarter_date]

lemma kept_prepare_test:
  "triple (extends w0) (prepare_test align t p) (\<lambda>_. extends w0) (extends w0)"
  unfolding prepare_test_def
  apply (rule triple_seq, rule kept_prims)
  apply (rule triple_bind, rule kept_add_quarter_date)
  apply (rule triple_bind, rule kept_setitem_series)
  apply (rule kept_prims)
  done

lemma kept_historical_context:
  "triple (extends w0) (plot_historical_context ax year hy h) (\<lambda>_. extends w0) (extends w0)"
  unfolding plot_historical_context_def by (intro triple_seq kept_prims)

lemma kept_draw_actual_vs_predicted:
  "triple (extends w0) (draw_actual_vs_predicted self ax plot_df mn year)
     (\<lambda>_. extends w0) (extends w0)"
  unfolding draw_actual_vs_predicted_def by (intro triple_seq kept_prims)

lemma kept_plot_actual_vs_predicted:
  "triple (extends w0) (plot_actual_vs_predicted align self t p mn year hist hy)
     (\<lambda>_. extends w0) (extends w0)"
  unfolding plot_actual_vs_predicted_def
  by (cases hist)
    (auto intro!: triple_seq kept_prims kept_prepare_test kept_historical_context
      kept_draw_actual_vs_predicted)

lemma kept_filter_historical:
  "triple (extends w0) (filter_historical a v) (\<lambda>_. extends w0) (extends w0)"
  unfolding filter_historical_def by (auto intro!: triple_seq kept_prims)

lemma kept_connect_forecast:
  "triple (extends w0) (connect_forecast f h v) (\<lambda>_. extends w0) (extends w0)"
  unfolding connect_forecast_def by (intro triple_seq kept_prims kept_filter_historical)

lemma kept_draw_forecast:
  "triple (extends w0) (draw_forecast self fp hist fcn fy mn) (\<lambda>_. extends w0) (extends w0)"
  unfolding draw_forecast_def by (intro triple_seq kept_prims)

lemma kept_plot_forecast:
  "triple (extends w0) (plot_forecast self f h fy mn v) (\<lambda>_. extends w0) (extends w0)"
  unfolding plot_forecast_def
  by (rule triple_seq, rule kept_connect_forecast) (auto intro: kept_draw_forecast)

lemma kept_plot_feature_importance:
  "triple (extends w0) (plot_feature_importance self a title) (\<lambda>_. extends w0) (extends w0)"
  unfolding plot_feature_importance_def by (intro triple_seq kept_prims)

lemma kept_print_rows:
  "triple (extends w0) (print_rows df rows) (\<lambda>_. extends w0) (extends w0)"
  by (induction rows) (auto intro!: triple_seq kept_prims)

lemma kept_print_feature_importance:
  "triple (extends w0) (print_feature_importance self a title) (\<lambda>_. extends w0) (extends w0)"
  unfolding print_feature_importance_def by (intro triple_seq kept_prims kept_print_rows)

lemma triple_invariant:
  assumes "triple I f (\<lambda>_. I) I" and "I w"
  shows "I (snd (f w))"
  using assms by (cases "f w") (auto simp: triple_def split: sum.splits)

section \<open>Properties\<close>

subsection \<open>Quarter dates\<close>

text \<open>
  C7. \<open>add_quarter_date\<close> on a frame whose \<open>year_quarter\<close> column holds \<open>2025Q1\<close>,
  \<open>2025Q2\<close>, \<open>2025Q3\<close>, \<open>2025Q4\<close> returns a frame whose \<open>date\<close> column holds the first
  days of the four quarters of 2025, in strictly increasing order.
\<close>

theorem add_quarter_date_2025_quarters:
  assumes "getitem (frames w ! df) ''year_quarter''
             = Inr (map StrV [''2025Q1'', ''2025Q2'', ''2025Q3'', ''2025Q4''])"
  shows "\<exists>c w' dates. add_quarter_date df w = (Inr c, w')
           \<and> getitem (frames w' ! c) ''date'' = Inr dates
           \<and> dates = [TsV (Timestamp 2025 1 1), TsV (Timestamp 2025 4 1),
                      TsV (Timestamp 2025 7 1), TsV (Timestamp 2025 10 1)]
           \<and> sorted_wrt date_less dates"
proof -
  have q: "quarter_dates (frames w ! df)
             = Inr [TsV (Timestamp 2025 1 1), TsV (Timestamp 2025 4 1),
                    TsV (Timestamp 2025 7 1), TsV (Timestamp 2025 10 1)]"
    by (simp add: quarter_dates_def assms PeriodIndex_def is_digit_def digit_val_def
        to_timestamp_def)
  show ?thesis
    by (simp add: add_quarter_date_run q getitem_setitem_same)
qed

theorem add_quarter_date_2025_quarters_witness:
  "getitem (frames example_world ! 2) ''year_quarter''
     = Inr (map StrV [''2025Q1'', ''2025Q2'', ''2025Q3'', ''2025Q4''])
   \<and> (\<exists>c w' dates. add_quarter_date 2 example_world = (Inr c, w')
           \<and> getitem (frames w' ! c) ''date'' = Inr dates
           \<and> dates = [TsV (Timestamp 2025 1 1), TsV (Timestamp 2025 4 1),
                      TsV (Timestamp 2025 7 1), TsV (Timestamp 2025 10 1)]
           \<and> sorted_wrt date_less dates)"
proof -
  have h: "getitem (frames example_world ! 2) ''year_quarter''
     = Inr (map StrV [''2025Q1'', ''2025Q2'', ''2025Q3'', ''2025Q4''])"
    by (simp add: example_world_def example_test_def getitem_def)
  show ?thesis
    using h add_quarter_date_2025_quarters [OF h] by blast
qed

subsection \<open>The forecast frame\<close>

text \<open>
  C3. \<open>refit_and_forecast\<close> with \<open>forecast_year=2026\<close>, \<open>train_max_year=2025\<close> and
  \<open>exclude_years=[2024]\<close> gives a frame of exactly four rows, one per quarter of 2026,
  with the columns \<open>year_quarter\<close> and \<open>predicted_casos_est\<close>.
\<close>

theorem refit_and_forecast_shape:
  "\<exists>qs ps. refit_and_forecast df_feat feature_cols model 2026 2025 [2024]
             = [(''year_quarter'', qs), (''predicted_casos_est'', ps)]
      \<and> qs = map StrV [''2026Q1'', ''2026Q2'', ''2026Q3'', ''2026Q4'']
      \<and> length qs = 4 \<and> length ps = 4
      \<and> nrows (refit_and_forecast df_feat feature_cols model 2026 2025 [2024]) = 4
      \<and> getitem (refit_and_forecast df_feat feature_cols model 2026 2025 [2024])
            ''year_quarter'' = Inr qs
      \<and> getitem (refit_and_forecast df_feat feature_cols model 2026 2025 [2024])
            ''predicted_casos_est'' = Inr ps"
proof -
  have l: "map (quarter_label 2026) [1, 2, 3, 4]
             = [''2026Q1'', ''2026Q2'', ''2026Q3'', ''2026Q4'']"
    by code_simp
  show ?thesis
    unfolding refit_and_forecast_def Let_def l by (simp add: nrows_def getitem_def)
qed

subsection \<open>The start year of the history\<close>

text \<open>
  C10. In \<open>plot_forecast\<close>, \<open>hist_start_year = 0\<close> behaves as \<open>hist_start_year = None\<close>:
  the whole historical frame is used. The rows are restricted to those from
  \<open>hist_start_year\<close> on exactly when the value is neither \<open>None\<close> nor zero.
\<close>

theorem plot_forecast_zero_start_year:
  "plot_forecast self forecast_df historical_df forecast_year model_name (Some 0)
     = plot_forecast self forecast_df historical_df forecast_year model_name None
   \<and> filter_historical hist_plot v
       = (if v = None \<or> v = Some 0 then df_copy hist_plot
          else bind (df_derive hist_plot (from_year (the v))) df_copy)"
  by (auto simp add: plot_forecast_def connect_forecast_def filter_historical_def truthy_def
      split: option.splits)

subsection \<open>The bar of a printed row\<close>

text \<open>
  C1. The claim is that the bar printed for a row of importance \<open>v\<close> has length
  \<open>floor(v * 50)\<close>. The source repeats the empty string, so the bar is empty: for the
  importance 1/2 the row is printed with an empty bar, where the claim gives 25 glyphs.
\<close>

theorem print_feature_importance_bar_is_empty:
  "fst (print_feature_importance example_visualizer 3 ''Top 10 Feature Importance'' example_world)
     = Inr ()
   \<and> last (stdout (snd (print_feature_importance example_visualizer 3
             ''Top 10 Feature Importance'' example_world)))
       = Row_line (StrV ''lag_1'') (NumV (1 / 2)) []
   \<and> bar_count (NumV (1 / 2)) = Inr 25
   \<and> \<lfloor>(1 / 2 :: rat) * 50\<rfloor> = 25"
  by code_simp

subsection \<open>The frames and series of the caller\<close>

text \<open>
  C8. No method of the Visualizer changes a dataframe or a series of its caller: after
  \<open>add_quarter_date\<close>, \<open>plot_actual_vs_predicted\<close>, \<open>plot_forecast\<close>,
  \<open>plot_feature_importance\<close> and \<open>print_feature_importance\<close>, whether the call returns
  or raises, every object that existed before the call has the value it had.
  \<open>add_quarter_date\<close> returns a new object: the copy of its argument with the \<open>date\<close>
  column added.
\<close>

theorem visualizer_keeps_caller_objects:
  "extends w (snd (add_quarter_date df w))
   \<and> extends w (snd (plot_actual_vs_predicted align self test_df predictions model_name year
                       historical_df hist_years w))
   \<and> extends w (snd (plot_forecast self forecast_df hist_df forecast_year model_name
                       hist_start_year w))
   \<and> extends w (snd (plot_feature_importance self importance_df title w))
   \<and> extends w (snd (print_feature_importance self importance_df title w))
   \<and> add_quarter_date df w =
       (case quarter_dates (frames w ! df) of
          Inl e \<Rightarrow> (Inl e, w\<lparr>frames := frames w @ [frames w ! df]\<rparr>)
        | Inr d \<Rightarrow> (Inr (length (frames w)),
                    w\<lparr>frames := frames w @ [setitem (frames w ! df) ''date'' d]\<rparr>))"
proof -
  have "extends w (snd (add_quarter_date df w))"
    by (rule triple_invariant [OF triple_post_true [OF kept_add_quarter_date] extends_refl])
  moreover have "extends w (snd (plot_actual_vs_predicted align self test_df predictions
      model_name year historical_df hist_years w))"
    by (rule triple_invariant [OF kept_plot_actual_vs_predicted extends_refl])
  moreover have "extends w (snd (plot_forecast self forecast_df hist_df forecast_year
      model_name hist_start_year w))"
    by (rule triple_invariant [OF kept_plot_forecast extends_refl])
  moreover have "extends w (snd (plot_feature_importance self importance_df title w))"
    by (rule triple_invariant [OF kept_plot_feature_importance extends_refl])
  moreover have "extends w (snd (print_feature_importance self importance_df title w))"
    by (rule triple_invariant [OF kept_print_feature_importance extends_refl])
  ultimately show ?thesis
    by (simp add: add_quarter_date_run)
qed

end
